theory Spec2Isabelle
  imports Main "HOL-Library.Word"
begin

section \<open>Values, documents and errors\<close>

text \<open>
  The service of \<^verbatim>\<open>src/unnamed/part_001\<close> talks to a MongoDB store through the
  \<^verbatim>\<open>mongodb\<close> driver and answers HTTP requests through Express. Both libraries are
  outside the repository; they are modelled by the small in-memory store and response
  object of this section and the next, and the repository's own functions
  (\<^verbatim>\<open>connectDB\<close>, \<^verbatim>\<open>initDB\<close>, \<^verbatim>\<open>getProducts\<close>, \<^verbatim>\<open>start\<close> and the two route
  handlers) are translated line by line on top of them.

  An ObjectId is 12 bytes, here a 96-bit word. Stored values are the few BSON kinds the
  program touches; a number is an integer (the program stores 44, 33 and 19; JavaScript's
  doubles are not modelled). A document is schema-less: a list of named fields.
\<close>

type_synonym objectid = "96 word"

datatype bson =
    BObjectId objectid
  | BString string
  | BNumber int
  | BNull
  | BUndefined

type_synonym document = "(string \<times> bson) list"

datatype error =
    ConfigError string     \<comment> \<open>the \<^verbatim>\<open>Error(...)\<close> thrown by \<^verbatim>\<open>connectDB\<close> itself\<close>
  | MongoParseError        \<comment> \<open>driver: the connection string is malformed\<close>
  | MongoNetworkError      \<comment> \<open>driver: the store cannot be reached\<close>
  | MongoBulkWriteError    \<comment> \<open>driver: duplicate \<^verbatim>\<open>_id\<close> during an insert\<close>
  | TypeError              \<comment> \<open>runtime: a method is called on a value that lacks it\<close>

datatype log_entry =
    Line string            \<comment> \<open>\<^verbatim>\<open>console.log\<close> of a string\<close>
  | Thrown error           \<comment> \<open>\<^verbatim>\<open>console.log(e)\<close> of a caught error\<close>

datatype json =
    JNull
  | JString string
  | JNumber int
  | JArray "json list"
  | JObject "(string \<times> json) list"

datatype body =
    Json json              \<comment> \<open>\<^verbatim>\<open>res.send\<close> of an object or array: sent as JSON\<close>
  | Text string            \<comment> \<open>\<^verbatim>\<open>res.send\<close> of a string: sent as text\<close>

record response =
  statusCode :: nat
  body :: "body option"

record request =
  req_method :: string
  req_path :: string

datatype mongo_client = MongoClient string

record insert_result =
  insertedCount :: nat
  insertedIds :: "bson list"

text \<open>
  The object pushed by \<^verbatim>\<open>getProducts\<close>:
  \<^verbatim>\<open>{ _id: string; kind: string; count: number }\<close>. The field \<^verbatim>\<open>_id\<close> is named
  \<open>id_hex\<close> (an Isabelle name cannot start with an underscore). At run time
  \<^verbatim>\<open>doc.kind\<close> and \<^verbatim>\<open>doc.count\<close> are whatever the stored document holds.
\<close>

record product =
  id_hex :: string
  kind :: bson
  count :: bson

text \<open>
  Everything the process can observe or change: its environment, the store behind the
  connection (whether it answers, and its collections by name), the driver's ObjectId
  generator, the console, the routes and the listener of the Express application, and the
  error of an unhandled rejection that ended the process.

  A collection name outside the domain of \<open>collections\<close> is a collection that does not
  exist; a name mapped to \<open>[]\<close> is one that exists and holds no document, as MongoDB
  leaves it after \<^verbatim>\<open>createCollection\<close> or after the deletion of its last document.
  Whether the store answers is part of the state and does not change during one driver
  call; a call to a store that does not answer is rejected and changes nothing.
\<close>

record world =
  env :: "string \<rightharpoonup> string"
  reachable :: bool
  connected :: bool
  collections :: "string \<rightharpoonup> document list"
  oid_next :: objectid
  console :: "log_entry list"
  routes :: "(string \<times> string) list"
  listening :: "nat option"
  fault :: "error option"

type_synonym 'a io = "world \<Rightarrow> (error + 'a) \<times> world"

definition return_io :: "'a \<Rightarrow> 'a io" where
  "return_io x w = (Inr x, w)"

definition throw_io :: "error \<Rightarrow> 'a io" where
  "throw_io e w = (Inl e, w)"

text \<open>\<^verbatim>\<open>await m; f\<close>: a rejection of \<open>m\<close> skips the rest.\<close>

definition bind_io :: "'a io \<Rightarrow> ('a \<Rightarrow> 'b io) \<Rightarrow> 'b io" where
  "bind_io m f w = (case m w of (Inl e, w') \<Rightarrow> (Inl e, w') | (Inr x, w') \<Rightarrow> f x w')"

definition console_log :: "log_entry \<Rightarrow> unit io" where
  "console_log l w = (Inr (), w\<lparr>console := console w @ [l]\<rparr>)"

section \<open>Rendering\<close>

definition hex_digit :: "nat \<Rightarrow> char" where
  "hex_digit d = ''0123456789abcdef'' ! (d mod 16)"

text \<open>\<^verbatim>\<open>ObjectId.toHexString()\<close>: 24 lowercase hex digits, most significant first.\<close>

definition toHexString :: "objectid \<Rightarrow> string" where
  "toHexString oid = map (\<lambda>i. hex_digit (unat oid div 16 ^ i)) (rev [0..<24])"

fun show_nat :: "nat \<Rightarrow> string" where
  "show_nat n =
     (if n < 10 then [''0123456789'' ! n]
      else show_nat (n div 10) @ [''0123456789'' ! (n mod 10)])"

declare show_nat.simps [simp del]

definition show_int :: "int \<Rightarrow> string" where
  "show_int i = (if i < 0 then CHR ''-'' # show_nat (nat (- i)) else show_nat (nat i))"

text \<open>A value inside a template literal \<^verbatim>\<open>${...}\<close>.\<close>

fun template :: "bson \<Rightarrow> string" where
  "template (BObjectId oid) = toHexString oid"
| "template (BString s) = s"
| "template (BNumber n) = show_int n"
| "template BNull = ''null''"
| "template BUndefined = ''undefined''"

text \<open>A property read \<^verbatim>\<open>doc.k\<close>: a missing property is \<^verbatim>\<open>undefined\<close>.\<close>

definition field :: "document \<Rightarrow> string \<Rightarrow> bson" where
  "field doc k = (case map_of doc k of None \<Rightarrow> BUndefined | Some v \<Rightarrow> v)"

text \<open>
  What \<^verbatim>\<open>JSON.stringify\<close> makes of a property: an ObjectId is its hex string, an
  \<^verbatim>\<open>undefined\<close> property is left out.
\<close>

fun to_json :: "bson \<Rightarrow> json option" where
  "to_json (BObjectId oid) = Some (JString (toHexString oid))"
| "to_json (BString s) = Some (JString s)"
| "to_json (BNumber n) = Some (JNumber n)"
| "to_json BNull = Some JNull"
| "to_json BUndefined = None"

definition json_member :: "string \<Rightarrow> bson \<Rightarrow> (string \<times> json) list" where
  "json_member k v = (case to_json v of None \<Rightarrow> [] | Some j \<Rightarrow> [(k, j)])"

definition product_json :: "product \<Rightarrow> json" where
  "product_json p =
     JObject ((''_id'', JString (id_hex p)) # json_member ''kind'' (kind p) @ json_member ''count'' (count p))"

section \<open>The store behind the driver\<close>

text \<open>
  \<^verbatim>\<open>new MongoClient(uri)\<close> parses the connection string and refuses one that does not
  start with one of the two MongoDB schemes; \<^verbatim>\<open>mongo.connect()\<close> opens the session and
  fails when the store does not answer.
\<close>

definition valid_scheme :: "string \<Rightarrow> bool" where
  "valid_scheme uri = (take 10 uri = ''mongodb://'' \<or> take 14 uri = ''mongodb+srv://'')"

definition new_MongoClient :: "string \<Rightarrow> mongo_client io" where
  "new_MongoClient uri =
     (if valid_scheme uri then return_io (MongoClient uri) else throw_io MongoParseError)"

definition connect :: "mongo_client \<Rightarrow> unit io" where
  "connect mongo w =
     (if reachable w then (Inr (), w\<lparr>connected := True\<rparr>) else (Inl MongoNetworkError, w))"

text \<open>
  \<^verbatim>\<open>db.listCollections({ name }).hasNext()\<close>: whether a collection of that name exists.
\<close>

definition listCollections_hasNext :: "mongo_client \<Rightarrow> string \<Rightarrow> bool io" where
  "listCollections_hasNext mongo name w =
     (if reachable w then (Inr (collections w name \<noteq> None), w) else (Inl MongoNetworkError, w))"

text \<open>
  \<^verbatim>\<open>collection(name).find()\<close> with no filter: every document, in the store's order; a
  collection that does not exist has none (and is not created by the read).
\<close>

definition find_docs :: "mongo_client \<Rightarrow> string \<Rightarrow> document list io" where
  "find_docs mongo name w =
     (if reachable w
      then (Inr (case collections w name of None \<Rightarrow> [] | Some ds \<Rightarrow> ds), w)
      else (Inl MongoNetworkError, w))"

text \<open>
  \<^verbatim>\<open>insertMany\<close>: the driver gives each document without \<^verbatim>\<open>_id\<close> a fresh ObjectId,
  then the store appends the documents in order, creating the collection when it does not
  exist, and stops at the first \<^verbatim>\<open>_id\<close> already present.
\<close>

fun assign_ids :: "objectid \<Rightarrow> document list \<Rightarrow> document list \<times> objectid" where
  "assign_ids c [] = ([], c)"
| "assign_ids c (d # ds) =
     (case map_of d ''_id'' of
        Some v \<Rightarrow> (case assign_ids c ds of (ds', c') \<Rightarrow> (d # ds', c'))
      | None \<Rightarrow> (case assign_ids (c + 1) ds of (ds', c') \<Rightarrow> (((''_id'', BObjectId c) # d) # ds', c')))"

fun insert_ordered :: "document list \<Rightarrow> document list \<Rightarrow> document list \<times> bson list \<times> bool" where
  "insert_ordered coll [] = (coll, [], True)"
| "insert_ordered coll (d # ds) =
     (if field d ''_id'' \<in> set (map (\<lambda>e. field e ''_id'') coll) then (coll, [], False)
      else (case insert_ordered (coll @ [d]) ds of
              (coll', ids, ok) \<Rightarrow> (coll', field d ''_id'' # ids, ok)))"

definition insertMany :: "mongo_client \<Rightarrow> string \<Rightarrow> document list \<Rightarrow> insert_result io" where
  "insertMany mongo name docs w =
     (if reachable w then
        (case assign_ids (oid_next w) docs of
           (docs', c') \<Rightarrow>
             (case insert_ordered (case collections w name of None \<Rightarrow> [] | Some ds \<Rightarrow> ds) docs' of
                (coll', ids, ok) \<Rightarrow>
                  (if ok then Inr \<lparr>insertedCount = length ids, insertedIds = ids\<rparr>
                   else Inl MongoBulkWriteError,
                   w\<lparr>collections := (collections w)(name \<mapsto> coll'), oid_next := c'\<rparr>)))
      else (Inl MongoNetworkError, w))"

section \<open>The response object\<close>

text \<open>A response starts with status 200 and no body; \<^verbatim>\<open>res.status\<close> and \<^verbatim>\<open>res.send\<close>.\<close>

definition fresh_res :: response where
  "fresh_res = \<lparr>statusCode = 200, body = None\<rparr>"

definition res_status :: "nat \<Rightarrow> response \<Rightarrow> response" where
  "res_status n res = res\<lparr>statusCode := n\<rparr>"

definition res_send :: "body \<Rightarrow> response \<Rightarrow> response" where
  "res_send b res = res\<lparr>body := Some b\<rparr>"

section \<open>The service with the store: \<^verbatim>\<open>src/unnamed/part_001\<close>\<close>

definition port :: nat where
  "port = 3000"

definition connectDB :: "mongo_client io" where
  "connectDB w =
     (case env w ''DATABASE_URL'' of
        None \<Rightarrow> throw_io (ConfigError ''DATABASE_URL environment variable is not specified'') w
      | Some uri \<Rightarrow>
          bind_io (new_MongoClient uri) (\<lambda>mongo.
          bind_io (connect mongo) (\<lambda>_.
          return_io mongo)) w)"

definition sample_products :: "document list" where
  "sample_products =
     [[(''kind'', BString ''orange''), (''count'', BNumber 44)],
      [(''kind'', BString ''banana''), (''count'', BNumber 33)],
      [(''kind'', BString ''grapes''), (''count'', BNumber 19)]]"

text \<open>The \<^verbatim>\<open>for (let key in result.insertedIds)\<close> loop of \<^verbatim>\<open>initDB\<close>.\<close>

fun log_inserted :: "bson list \<Rightarrow> unit io" where
  "log_inserted [] = return_io ()"
| "log_inserted (i # ids) =
     bind_io (console_log (Line (''  Inserted product with ID '' @ template i))) (\<lambda>_.
     log_inserted ids)"

definition initDB :: "mongo_client \<Rightarrow> unit io" where
  "initDB mongo =
     bind_io (listCollections_hasNext mongo ''products'') (\<lambda>exists.
       if exists then console_log (Line ''Collection already exists. Skipping initialization.'')
       else
         bind_io (insertMany mongo ''products'' sample_products) (\<lambda>result.
         bind_io (console_log (Line (''Initialized '' @ show_nat (insertedCount result) @ '' products''))) (\<lambda>_.
         bind_io (console_log (Line ''Initialized:'')) (\<lambda>_.
         log_inserted (insertedIds result)))))"

text \<open>
  The callback of \<^verbatim>\<open>result.forEach\<close> in \<^verbatim>\<open>getProducts\<close>: \<^verbatim>\<open>doc._id.toHexString()\<close>
  exists only when \<^verbatim>\<open>_id\<close> is an ObjectId.
\<close>

definition project :: "document \<Rightarrow> error + product" where
  "project doc =
     (case field doc ''_id'' of
        BObjectId oid \<Rightarrow>
          Inr \<lparr>id_hex = toHexString oid, kind = field doc ''kind'', count = field doc ''count''\<rparr>
      | _ \<Rightarrow> Inl TypeError)"

fun forEach :: "document list \<Rightarrow> product list \<Rightarrow> error + product list" where
  "forEach [] ret = Inr ret"
| "forEach (doc # docs) ret =
     (case project doc of Inl e \<Rightarrow> Inl e | Inr p \<Rightarrow> forEach docs (ret @ [p]))"

definition getProducts :: "mongo_client \<Rightarrow> product list io" where
  "getProducts mongo =
     bind_io (find_docs mongo ''products'') (\<lambda>result w. (forEach result [], w))"

text \<open>The handler that \<^verbatim>\<open>start\<close> registers for \<^verbatim>\<open>GET /\<close>, with its try and catch.\<close>

definition root_handler :: "mongo_client \<Rightarrow> request \<Rightarrow> world \<Rightarrow> response \<times> world" where
  "root_handler mongo req w =
     (case getProducts mongo w of
        (Inr products, w') \<Rightarrow> (res_send (Json (JArray (map product_json products))) fresh_res, w')
      | (Inl e, w') \<Rightarrow>
          (res_send (Text ''Products not available'') (res_status 404 fresh_res),
           snd (console_log (Thrown e) w')))"

definition app_get :: "string \<Rightarrow> unit io" where
  "app_get p w = (Inr (), w\<lparr>routes := routes w @ [(''GET'', p)]\<rparr>)"

definition app_listen :: "nat \<Rightarrow> unit io" where
  "app_listen n w =
     console_log (Line (''Running on '' @ show_nat n @ ''.'')) (w\<lparr>listening := Some n\<rparr>)"

definition start :: "unit io" where
  "start =
     bind_io connectDB (\<lambda>mongo.
     bind_io (initDB mongo) (\<lambda>_.
     bind_io (app_get ''/'') (\<lambda>_.
     app_listen port)))"

text \<open>
  The last line of the file, \<^verbatim>\<open>start();\<close>: nothing catches a rejection of \<^verbatim>\<open>start\<close>,
  which ends the process.
\<close>

definition main :: "world \<Rightarrow> world" where
  "main w = (case start w of (Inl e, w') \<Rightarrow> w'\<lparr>fault := Some e\<rparr> | (Inr _, w') \<Rightarrow> w')"

text \<open>The process as it is when the module has been loaded and \<^verbatim>\<open>start\<close> has not run.\<close>

definition boot :: "(string \<rightharpoonup> string) \<Rightarrow> bool \<Rightarrow> (string \<rightharpoonup> document list) \<Rightarrow> world" where
  "boot e r cs =
     \<lparr>env = e, reachable = r, connected = False, collections = cs, oid_next = 0,
      console = [], routes = [], listening = None, fault = None\<rparr>"

section \<open>The service without a store: \<^verbatim>\<open>src/src/index.ts\<close>\<close>

definition index_handler :: "request \<Rightarrow> response \<Rightarrow> response" where
  "index_handler req res = res_send (Json (JObject [(''message'', JString ''ok'')])) res"

section \<open>Facts about the store and the rendering\<close>

lemma hex_digit_in: "hex_digit d \<in> set ''0123456789abcdef''"
  unfolding hex_digit_def by (rule nth_mem) simp

lemma toHexString_length: "length (toHexString oid) = 24"
  by (simp add: toHexString_def)

lemma toHexString_hex: "set (toHexString oid) \<subseteq> set ''0123456789abcdef''"
  unfolding toHexString_def using hex_digit_in by auto

lemma assign_ids_sample:
  "assign_ids c sample_products =
     ([[(''_id'', BObjectId c), (''kind'', BString ''orange''), (''count'', BNumber 44)],
       [(''_id'', BObjectId (c + 1)), (''kind'', BString ''banana''), (''count'', BNumber 33)],
       [(''_id'', BObjectId (c + 2)), (''kind'', BString ''grapes''), (''count'', BNumber 19)]], c + 3)"
  by (simp add: sample_products_def)

lemma insertMany_sample:
  assumes "reachable w"
    and "(case collections w ''products'' of None \<Rightarrow> [] | Some ds \<Rightarrow> ds) = []"
  shows "insertMany m ''products'' sample_products w =
    (Inr \<lparr>insertedCount = 3,
          insertedIds = [BObjectId (oid_next w), BObjectId (oid_next w + 1), BObjectId (oid_next w + 2)]\<rparr>,
     w\<lparr>collections := (collections w)(''products'' \<mapsto>
          [[(''_id'', BObjectId (oid_next w)), (''kind'', BString ''orange''), (''count'', BNumber 44)],
           [(''_id'', BObjectId (oid_next w + 1)), (''kind'', BString ''banana''), (''count'', BNumber 33)],
           [(''_id'', BObjectId (oid_next w + 2)), (''kind'', BString ''grapes''), (''count'', BNumber 19)]]),
        oid_next := oid_next w + 3\<rparr>)"
  using assms by (simp add: insertMany_def assign_ids_sample field_def)

lemma show_nat_3: "show_nat 3 = ''3''"
  by (simp add: show_nat.simps)

lemma initDB_down: "\<not> reachable w \<Longrightarrow> initDB m w = (Inl MongoNetworkError, w)"
  by (simp add: initDB_def bind_io_def listCollections_hasNext_def)

lemma initDB_skip:
  assumes "reachable w" and "collections w ''products'' \<noteq> None"
  shows "initDB m w =
    (Inr (), w\<lparr>console := console w @ [Line ''Collection already exists. Skipping initialization.'']\<rparr>)"
  using assms by (simp add: initDB_def bind_io_def listCollections_hasNext_def console_log_def)

lemma initDB_seed:
  assumes "reachable w" and "collections w ''products'' = None"
  shows "initDB m w =
    (Inr (),
     w\<lparr>collections := (collections w)(''products'' \<mapsto>
          [[(''_id'', BObjectId (oid_next w)), (''kind'', BString ''orange''), (''count'', BNumber 44)],
           [(''_id'', BObjectId (oid_next w + 1)), (''kind'', BString ''banana''), (''count'', BNumber 33)],
           [(''_id'', BObjectId (oid_next w + 2)), (''kind'', BString ''grapes''), (''count'', BNumber 19)]]),
        oid_next := oid_next w + 3,
        console := console w @
          [Line ''Initialized 3 products'',
           Line ''Initialized:'',
           Line (''  Inserted product with ID '' @ toHexString (oid_next w)),
           Line (''  Inserted product with ID '' @ toHexString (oid_next w + 1)),
           Line (''  Inserted product with ID '' @ toHexString (oid_next w + 2))]\<rparr>)"
proof -
  have "insertMany m ''products'' sample_products w = (Inr \<lparr>insertedCount = 3,
          insertedIds = [BObjectId (oid_next w), BObjectId (oid_next w + 1), BObjectId (oid_next w + 2)]\<rparr>,
     w\<lparr>collections := (collections w)(''products'' \<mapsto>
          [[(''_id'', BObjectId (oid_next w)), (''kind'', BString ''orange''), (''count'', BNumber 44)],
           [(''_id'', BObjectId (oid_next w + 1)), (''kind'', BString ''banana''), (''count'', BNumber 33)],
           [(''_id'', BObjectId (oid_next w + 2)), (''kind'', BString ''grapes''), (''count'', BNumber 19)]]),
        oid_next := oid_next w + 3\<rparr>)"
    using assms by (simp add: insertMany_sample)
  then show ?thesis
    using assms
    by (simp add: initDB_def bind_io_def listCollections_hasNext_def console_log_def
        return_io_def show_nat_3)
qed

lemma getProducts_frame: "snd (getProducts m w) = w"
  by (simp add: getProducts_def bind_io_def find_docs_def)

lemma root_handler_collections: "collections (snd (root_handler m req w)) = collections w"
proof (cases "getProducts m w")
  case (Pair r w')
  have "w' = w" using getProducts_frame [of m w] Pair by simp
  then show ?thesis using Pair
    by (cases r) (simp_all add: root_handler_def console_log_def)
qed

lemma root_handler_failure:
  assumes "fst (getProducts m w) = Inl e"
  shows "root_handler m req w =
    (\<lparr>statusCode = 404, body = Some (Text ''Products not available'')\<rparr>,
     w\<lparr>console := console w @ [Thrown e]\<rparr>)"
proof (cases "getProducts m w")
  case (Pair r w')
  have "w' = w" using getProducts_frame [of m w] Pair by simp
  moreover have "r = Inl e" using assms Pair by simp
  ultimately show ?thesis using Pair
    by (simp add: root_handler_def console_log_def res_send_def res_status_def fresh_res_def)
qed

lemma root_handler_response_depends:
  assumes "reachable w1 = reachable w2" and "collections w1 ''products'' = collections w2 ''products''"
  shows "fst (root_handler m req w1) = fst (root_handler m' req' w2)"
  using assms
  by (simp add: root_handler_def getProducts_def bind_io_def find_docs_def split: sum.splits)

lemma getProducts_seeded:
  assumes "reachable w"
    and "collections w ''products'' = Some
          [[(''_id'', BObjectId c), (''kind'', BString ''orange''), (''count'', BNumber 44)],
           [(''_id'', BObjectId (c + 1)), (''kind'', BString ''banana''), (''count'', BNumber 33)],
           [(''_id'', BObjectId (c + 2)), (''kind'', BString ''grapes''), (''count'', BNumber 19)]]"
  shows "getProducts m w =
    (Inr [\<lparr>id_hex = toHexString c, kind = BString ''orange'', count = BNumber 44\<rparr>,
          \<lparr>id_hex = toHexString (c + 1), kind = BString ''banana'', count = BNumber 33\<rparr>,
          \<lparr>id_hex = toHexString (c + 2), kind = BString ''grapes'', count = BNumber 19\<rparr>], w)"
  using assms by (simp add: getProducts_def bind_io_def find_docs_def project_def field_def)

lemma root_handler_seeded:
  assumes "reachable w"
    and "collections w ''products'' = Some
          [[(''_id'', BObjectId c), (''kind'', BString ''orange''), (''count'', BNumber 44)],
           [(''_id'', BObjectId (c + 1)), (''kind'', BString ''banana''), (''count'', BNumber 33)],
           [(''_id'', BObjectId (c + 2)), (''kind'', BString ''grapes''), (''count'', BNumber 19)]]"
  shows "root_handler m req w =
    (\<lparr>statusCode = 200, body = Some (Json (JArray
        [JObject [(''_id'', JString (toHexString c)), (''kind'', JString ''orange''), (''count'', JNumber 44)],
         JObject [(''_id'', JString (toHexString (c + 1))), (''kind'', JString ''banana''), (''count'', JNumber 33)],
         JObject [(''_id'', JString (toHexString (c + 2))), (''kind'', JString ''grapes''), (''count'', JNumber 19)]]))\<rparr>,
     w)"
  using getProducts_seeded [OF assms, of m]
  by (simp add: root_handler_def res_send_def fresh_res_def product_json_def json_member_def)

section \<open>Seeding: \<^verbatim>\<open>initDB\<close>\<close>

text \<open>
  C1, as amended. While the store answers, \<^verbatim>\<open>initDB\<close> is gated on the existence of the
  collection \<^verbatim>\<open>products\<close>, not on the existence of a document in it. If the collection
  does not exist, the three sample records are inserted by one \<^verbatim>\<open>insertMany\<close>, each with
  a fresh identifier, and the count and the three identifiers are logged. If the collection
  exists, whatever it holds (one or more documents, related to the samples or not, or no
  document at all), nothing is inserted and the only effect is the log line that says the
  initialization was skipped.
\<close>

theorem initDB_gate:
  assumes "reachable w"
  shows "initDB m w =
    (if collections w ''products'' = None then
       (Inr (),
        w\<lparr>collections := (collections w)(''products'' \<mapsto>
             [[(''_id'', BObjectId (oid_next w)), (''kind'', BString ''orange''), (''count'', BNumber 44)],
              [(''_id'', BObjectId (oid_next w + 1)), (''kind'', BString ''banana''), (''count'', BNumber 33)],
              [(''_id'', BObjectId (oid_next w + 2)), (''kind'', BString ''grapes''), (''count'', BNumber 19)]]),
           oid_next := oid_next w + 3,
           console := console w @
             [Line ''Initialized 3 products'',
              Line ''Initialized:'',
              Line (''  Inserted product with ID '' @ toHexString (oid_next w)),
              Line (''  Inserted product with ID '' @ toHexString (oid_next w + 1)),
              Line (''  Inserted product with ID '' @ toHexString (oid_next w + 2))]\<rparr>)
     else
       (Inr (),
        w\<lparr>console := console w @ [Line ''Collection already exists. Skipping initialization.'']\<rparr>))"
proof (cases "collections w ''products''")
  case None
  then show ?thesis using initDB_seed [OF assms None, of m] by simp
next
  case (Some ds)
  then have "collections w ''products'' \<noteq> None" by simp
  then show ?thesis using Some initDB_skip [OF assms, of m] by simp
qed

theorem initDB_gate_witness:
  "reachable (boot Map.empty True Map.empty) \<and>
   collections (snd (initDB (MongoClient ''mongodb://store/mydb'') (boot Map.empty True Map.empty))) ''products'' =
     Some [[(''_id'', BObjectId 0), (''kind'', BString ''orange''), (''count'', BNumber 44)],
           [(''_id'', BObjectId 1), (''kind'', BString ''banana''), (''count'', BNumber 33)],
           [(''_id'', BObjectId 2), (''kind'', BString ''grapes''), (''count'', BNumber 19)]] \<and>
   reachable (boot Map.empty True [''products'' \<mapsto> [[(''_id'', BNumber 7), (''item'', BString ''card'')]]]) \<and>
   snd (initDB (MongoClient ''mongodb://store/mydb'')
         (boot Map.empty True [''products'' \<mapsto> [[(''_id'', BNumber 7), (''item'', BString ''card'')]]])) =
     (boot Map.empty True [''products'' \<mapsto> [[(''_id'', BNumber 7), (''item'', BString ''card'')]]])
       \<lparr>console := [Line ''Collection already exists. Skipping initialization.'']\<rparr>"
  using initDB_gate [of "boot Map.empty True Map.empty" "MongoClient ''mongodb://store/mydb''"]
    initDB_gate [of "boot Map.empty True [''products'' \<mapsto> [[(''_id'', BNumber 7), (''item'', BString ''card'')]]]"
      "MongoClient ''mongodb://store/mydb''"]
  by (simp add: boot_def)

text \<open>
  C1 as stated fails on a collection that exists and holds no document: no document
  exists, and \<^verbatim>\<open>initDB\<close> skips the insertion.
\<close>

theorem initDB_skips_empty_collection:
  "collections (boot Map.empty True [''products'' \<mapsto> []]) ''products'' = Some [] \<and>
   initDB (MongoClient ''mongodb://store/mydb'') (boot Map.empty True [''products'' \<mapsto> []]) =
     (Inr (), (boot Map.empty True [''products'' \<mapsto> []])
        \<lparr>console := [Line ''Collection already exists. Skipping initialization.'']\<rparr>)"
  by (simp add: boot_def initDB_def bind_io_def listCollections_hasNext_def console_log_def)

text \<open>
  C2, as amended. While the store answers and the collection \<^verbatim>\<open>products\<close> does not
  exist, \<^verbatim>\<open>initDB\<close> succeeds; its \<^verbatim>\<open>insertMany\<close> reports three inserted records and
  is the only change to the store; the collection holds exactly three documents afterwards
  (it held none before), and the existence check
  \<^verbatim>\<open>listCollections({ name: 'products' }).hasNext()\<close> then answers true.
\<close>

theorem initDB_inserts_three:
  assumes "reachable w" and "collections w ''products'' = None"
  shows "fst (initDB m w) = Inr () \<and>
    map_sum id insertedCount (fst (insertMany m ''products'' sample_products w)) = Inr 3 \<and>
    collections (snd (initDB m w)) = collections (snd (insertMany m ''products'' sample_products w)) \<and>
    map_option length (collections (snd (initDB m w)) ''products'') = Some 3 \<and>
    fst (listCollections_hasNext m' ''products'' (snd (initDB m w))) = Inr True"
  using assms by (simp add: initDB_seed insertMany_sample listCollections_hasNext_def)

theorem initDB_inserts_three_witness:
  "reachable (boot Map.empty True Map.empty) \<and>
   collections (boot Map.empty True Map.empty) ''products'' = None \<and>
   map_option length
     (collections (snd (initDB (MongoClient ''mongodb://store/mydb'') (boot Map.empty True Map.empty))) ''products'') = Some 3 \<and>
   fst (listCollections_hasNext (MongoClient ''mongodb://store/mydb'') ''products''
     (snd (initDB (MongoClient ''mongodb://store/mydb'') (boot Map.empty True Map.empty)))) = Inr True"
proof -
  have r: "reachable (boot Map.empty True Map.empty)" by (simp add: boot_def)
  have n: "collections (boot Map.empty True Map.empty) ''products'' = None" by (simp add: boot_def)
  show ?thesis
    using r n initDB_inserts_three [OF r n, of "MongoClient ''mongodb://store/mydb''" "MongoClient ''mongodb://store/mydb''"]
    by blast
qed

text \<open>
  C2 as stated fails on a collection that exists and is empty: a read finds no document
  before \<^verbatim>\<open>initDB\<close>, and the collection still holds none after it.
\<close>

theorem initDB_empty_collection_stays_empty:
  "fst (find_docs (MongoClient ''mongodb://store/mydb'') ''products'' (boot Map.empty True [''products'' \<mapsto> []])) = Inr [] \<and>
   map_option length
     (collections (snd (initDB (MongoClient ''mongodb://store/mydb'') (boot Map.empty True [''products'' \<mapsto> []])))
        ''products'') = Some 0"
  by (simp add: boot_def initDB_def bind_io_def listCollections_hasNext_def console_log_def find_docs_def)

text \<open>
  C3. Seeding is idempotent on the store: from every state, a second run of \<^verbatim>\<open>initDB\<close>
  leaves the collections exactly as the first run left them. When the first run seeds
  (the store answers and the collection does not exist), the collection holds the three
  sample records after two runs, not six.
\<close>

theorem initDB_idempotent:
  "collections (snd (initDB m' (snd (initDB m w)))) = collections (snd (initDB m w)) \<and>
   (reachable w \<longrightarrow> collections w ''products'' = None \<longrightarrow>
      map_option (map (\<lambda>d. (field d ''kind'', field d ''count'')))
        (collections (snd (initDB m' (snd (initDB m w)))) ''products'') =
      Some [(BString ''orange'', BNumber 44), (BString ''banana'', BNumber 33), (BString ''grapes'', BNumber 19)])"
proof -
  have idem: "collections (snd (initDB m' (snd (initDB m w)))) = collections (snd (initDB m w))"
  proof (cases "reachable w")
    case False
    then show ?thesis by (simp add: initDB_down)
  next
    case True
    show ?thesis
    proof (cases "collections w ''products''")
      case None
      then show ?thesis using True by (simp add: initDB_seed initDB_skip)
    next
      case (Some ds)
      then show ?thesis using True by (simp add: initDB_skip)
    qed
  qed
  have three: "map_option (map (\<lambda>d. (field d ''kind'', field d ''count'')))
        (collections (snd (initDB m w)) ''products'') =
      Some [(BString ''orange'', BNumber 44), (BString ''banana'', BNumber 33), (BString ''grapes'', BNumber 19)]"
    if "reachable w" and "collections w ''products'' = None"
    using that by (simp add: initDB_seed field_def)
  show ?thesis using idem three by simp
qed

theorem initDB_idempotent_witness:
  "reachable (boot Map.empty True Map.empty) \<and>
   collections (boot Map.empty True Map.empty) ''products'' = None \<and>
   collections (snd (initDB (MongoClient ''mongodb://store/mydb'')
       (snd (initDB (MongoClient ''mongodb://store/mydb'') (boot Map.empty True Map.empty))))) =
     collections (snd (initDB (MongoClient ''mongodb://store/mydb'') (boot Map.empty True Map.empty))) \<and>
   map_option (map (\<lambda>d. (field d ''kind'', field d ''count'')))
     (collections (snd (initDB (MongoClient ''mongodb://store/mydb'')
       (snd (initDB (MongoClient ''mongodb://store/mydb'') (boot Map.empty True Map.empty))))) ''products'') =
     Some [(BString ''orange'', BNumber 44), (BString ''banana'', BNumber 33), (BString ''grapes'', BNumber 19)]"
proof -
  have r: "reachable (boot Map.empty True Map.empty)" by (simp add: boot_def)
  have n: "collections (boot Map.empty True Map.empty) ''products'' = None" by (simp add: boot_def)
  show ?thesis
    using r n initDB_idempotent [of "MongoClient ''mongodb://store/mydb''" "MongoClient ''mongodb://store/mydb''"
        "boot Map.empty True Map.empty"]
    by blast
qed

section \<open>Listing: \<^verbatim>\<open>getProducts\<close> and the handler of \<^verbatim>\<open>GET /\<close>\<close>

text \<open>
  C4. After the seeding insertion (the \<^verbatim>\<open>insertMany\<close> of the three sample records) into a
  collection that holds no document, while the store answers, \<^verbatim>\<open>GET /\<close> answers 200 with
  a body of exactly three objects, in the store's order: orange with 44, banana with 33,
  grapes with 19, each with the identifier the insertion gave it, rendered by
  \<^verbatim>\<open>toHexString\<close>. When the collection did not exist, \<^verbatim>\<open>initDB\<close> performs that
  insertion, and the answer after \<^verbatim>\<open>initDB\<close> is the same. Every rendered identifier is a
  string of 24 characters, all of them lowercase hex digits.
\<close>

theorem seeded_listing:
  assumes "reachable w"
    and "(case collections w ''products'' of None \<Rightarrow> [] | Some ds \<Rightarrow> ds) = []"
  shows "fst (root_handler m' req (snd (insertMany m ''products'' sample_products w))) =
      \<lparr>statusCode = 200, body = Some (Json (JArray
        [JObject [(''_id'', JString (toHexString (oid_next w))),
                  (''kind'', JString ''orange''), (''count'', JNumber 44)],
         JObject [(''_id'', JString (toHexString (oid_next w + 1))),
                  (''kind'', JString ''banana''), (''count'', JNumber 33)],
         JObject [(''_id'', JString (toHexString (oid_next w + 2))),
                  (''kind'', JString ''grapes''), (''count'', JNumber 19)]]))\<rparr> \<and>
    (collections w ''products'' = None \<longrightarrow>
       fst (root_handler m' req (snd (initDB m w))) =
       fst (root_handler m' req (snd (insertMany m ''products'' sample_products w)))) \<and>
    (\<forall>oid. length (toHexString oid) = 24 \<and> set (toHexString oid) \<subseteq> set ''0123456789abcdef'')"
proof -
  let ?w' = "snd (insertMany m ''products'' sample_products w)"
  have r: "reachable ?w'" using assms by (simp add: insertMany_sample)
  have c: "collections ?w' ''products'' = Some
          [[(''_id'', BObjectId (oid_next w)), (''kind'', BString ''orange''), (''count'', BNumber 44)],
           [(''_id'', BObjectId (oid_next w + 1)), (''kind'', BString ''banana''), (''count'', BNumber 33)],
           [(''_id'', BObjectId (oid_next w + 2)), (''kind'', BString ''grapes''), (''count'', BNumber 19)]]"
    using assms by (simp add: insertMany_sample)
  have listing: "fst (root_handler m' req ?w') =
      \<lparr>statusCode = 200, body = Some (Json (JArray
        [JObject [(''_id'', JString (toHexString (oid_next w))),
                  (''kind'', JString ''orange''), (''count'', JNumber 44)],
         JObject [(''_id'', JString (toHexString (oid_next w + 1))),
                  (''kind'', JString ''banana''), (''count'', JNumber 33)],
         JObject [(''_id'', JString (toHexString (oid_next w + 2))),
                  (''kind'', JString ''grapes''), (''count'', JNumber 19)]]))\<rparr>"
    using root_handler_seeded [OF r c, of m' req] by simp
  have same: "fst (root_handler m' req (snd (initDB m w))) = fst (root_handler m' req ?w')"
    if "collections w ''products'' = None"
  proof (rule root_handler_response_depends)
    show "reachable (snd (initDB m w)) = reachable ?w'"
      using assms that by (simp add: initDB_seed insertMany_sample)
    show "collections (snd (initDB m w)) ''products'' = collections ?w' ''products''"
      using assms that by (simp add: initDB_seed insertMany_sample)
  qed
  show ?thesis using listing same toHexString_length toHexString_hex by blast
qed

theorem seeded_listing_witness:
  "reachable (boot Map.empty True Map.empty) \<and>
   (case collections (boot Map.empty True Map.empty) ''products'' of None \<Rightarrow> [] | Some ds \<Rightarrow> ds) = [] \<and>
   collections (boot Map.empty True Map.empty) ''products'' = None \<and>
   fst (root_handler (MongoClient ''mongodb://store/mydb'') \<lparr>req_method = ''GET'', req_path = ''/''\<rparr>
          (snd (initDB (MongoClient ''mongodb://store/mydb'') (boot Map.empty True Map.empty)))) =
      \<lparr>statusCode = 200, body = Some (Json (JArray
        [JObject [(''_id'', JString ''000000000000000000000000''),
                  (''kind'', JString ''orange''), (''count'', JNumber 44)],
         JObject [(''_id'', JString ''000000000000000000000001''),
                  (''kind'', JString ''banana''), (''count'', JNumber 33)],
         JObject [(''_id'', JString ''000000000000000000000002''),
                  (''kind'', JString ''grapes''), (''count'', JNumber 19)]]))\<rparr>"
proof -
  have r: "reachable (boot Map.empty True Map.empty)" by (simp add: boot_def)
  have e: "(case collections (boot Map.empty True Map.empty) ''products'' of None \<Rightarrow> [] | Some ds \<Rightarrow> ds) = []"
    by (simp add: boot_def)
  have n: "collections (boot Map.empty True Map.empty) ''products'' = None" by (simp add: boot_def)
  have o: "oid_next (boot Map.empty True Map.empty) = 0" by (simp add: boot_def)
  have h: "toHexString 0 = ''000000000000000000000000''" "toHexString 1 = ''000000000000000000000001''"
    "toHexString 2 = ''000000000000000000000002''"
    by (simp_all add: toHexString_def hex_digit_def upt_rec)
  show ?thesis
    using r e n seeded_listing [OF r e, of "MongoClient ''mongodb://store/mydb''"
        "\<lparr>req_method = ''GET'', req_path = ''/''\<rparr>" "MongoClient ''mongodb://store/mydb''"]
    by (simp add: o h)
qed

text \<open>
  C10. While the store answers and the collection \<^verbatim>\<open>products\<close> holds no document (it
  does not exist, or exists and is empty), \<^verbatim>\<open>GET /\<close> answers 200 with the empty JSON
  array, and nothing changes: an empty result is not a failure.
\<close>

theorem root_handler_no_documents:
  assumes "reachable w"
    and "(case collections w ''products'' of None \<Rightarrow> [] | Some ds \<Rightarrow> ds) = []"
  shows "root_handler m req w = (\<lparr>statusCode = 200, body = Some (Json (JArray []))\<rparr>, w)"
  using assms
  by (simp add: root_handler_def getProducts_def bind_io_def find_docs_def res_send_def fresh_res_def)

theorem root_handler_no_documents_witness:
  "reachable (boot Map.empty True [''products'' \<mapsto> []]) \<and>
   (case collections (boot Map.empty True [''products'' \<mapsto> []]) ''products'' of None \<Rightarrow> [] | Some ds \<Rightarrow> ds) = [] \<and>
   root_handler (MongoClient ''mongodb://store/mydb'') \<lparr>req_method = ''GET'', req_path = ''/''\<rparr>
       (boot Map.empty True [''products'' \<mapsto> []]) =
     (\<lparr>statusCode = 200, body = Some (Json (JArray []))\<rparr>, boot Map.empty True [''products'' \<mapsto> []])"
proof -
  have r: "reachable (boot Map.empty True [''products'' \<mapsto> []])" by (simp add: boot_def)
  have e: "(case collections (boot Map.empty True [''products'' \<mapsto> []]) ''products'' of
      None \<Rightarrow> [] | Some ds \<Rightarrow> ds) = []"
    by (simp add: boot_def)
  show ?thesis
    using r e root_handler_no_documents [OF r e, of "MongoClient ''mongodb://store/mydb''"
        "\<lparr>req_method = ''GET'', req_path = ''/''\<rparr>"]
    by simp
qed

text \<open>
  C6. Whenever \<^verbatim>\<open>getProducts\<close> fails, with whatever error, the handler answers 404 with
  the text \<^verbatim>\<open>Products not available\<close>, and its only effect is to log the error. The
  process has no fault and keeps its listener, and a later request is answered as if the
  failure had not happened, whatever the connectivity is by then.
\<close>

theorem root_handler_unavailable:
  assumes "fst (getProducts m w) = Inl e"
  shows "root_handler m req w =
      (\<lparr>statusCode = 404, body = Some (Text ''Products not available'')\<rparr>,
       w\<lparr>console := console w @ [Thrown e]\<rparr>) \<and>
    fault (snd (root_handler m req w)) = fault w \<and>
    listening (snd (root_handler m req w)) = listening w \<and>
    fst (root_handler m req' ((snd (root_handler m req w))\<lparr>reachable := r\<rparr>)) =
      fst (root_handler m req' (w\<lparr>reachable := r\<rparr>))"
proof -
  have a: "root_handler m req w =
      (\<lparr>statusCode = 404, body = Some (Text ''Products not available'')\<rparr>,
       w\<lparr>console := console w @ [Thrown e]\<rparr>)"
    using assms by (rule root_handler_failure)
  have b: "fst (root_handler m req' ((snd (root_handler m req w))\<lparr>reachable := r\<rparr>)) =
      fst (root_handler m req' (w\<lparr>reachable := r\<rparr>))"
    by (rule root_handler_response_depends) (simp_all add: a)
  show ?thesis using a b by simp
qed

theorem root_handler_unavailable_witness:
  "fst (getProducts (MongoClient ''mongodb://store/mydb'') (boot Map.empty False Map.empty)) = Inl MongoNetworkError \<and>
   root_handler (MongoClient ''mongodb://store/mydb'') \<lparr>req_method = ''GET'', req_path = ''/''\<rparr>
       (boot Map.empty False Map.empty) =
     (\<lparr>statusCode = 404, body = Some (Text ''Products not available'')\<rparr>,
      (boot Map.empty False Map.empty)\<lparr>console := [Thrown MongoNetworkError]\<rparr>) \<and>
   fst (root_handler (MongoClient ''mongodb://store/mydb'') \<lparr>req_method = ''GET'', req_path = ''/''\<rparr>
         ((snd (root_handler (MongoClient ''mongodb://store/mydb'') \<lparr>req_method = ''GET'', req_path = ''/''\<rparr>
                 (boot Map.empty False Map.empty)))\<lparr>reachable := True\<rparr>)) =
     \<lparr>statusCode = 200, body = Some (Json (JArray []))\<rparr>"
proof -
  have a: "fst (getProducts (MongoClient ''mongodb://store/mydb'') (boot Map.empty False Map.empty)) =
      Inl MongoNetworkError"
    by (simp add: getProducts_def bind_io_def find_docs_def boot_def)
  have b: "fst (root_handler (MongoClient ''mongodb://store/mydb'') \<lparr>req_method = ''GET'', req_path = ''/''\<rparr>
        ((boot Map.empty False Map.empty)\<lparr>reachable := True\<rparr>)) =
      \<lparr>statusCode = 200, body = Some (Json (JArray []))\<rparr>"
    by (simp add: root_handler_def getProducts_def bind_io_def find_docs_def boot_def res_send_def fresh_res_def)
  have c: "console (boot Map.empty False Map.empty) = []" by (simp add: boot_def)
  note t = root_handler_unavailable [OF a, of "\<lparr>req_method = ''GET'', req_path = ''/''\<rparr>"
      "\<lparr>req_method = ''GET'', req_path = ''/''\<rparr>" True]
  from t have d: "root_handler (MongoClient ''mongodb://store/mydb'') \<lparr>req_method = ''GET'', req_path = ''/''\<rparr>
       (boot Map.empty False Map.empty) =
     (\<lparr>statusCode = 404, body = Some (Text ''Products not available'')\<rparr>,
      (boot Map.empty False Map.empty)\<lparr>console := [Thrown MongoNetworkError]\<rparr>)"
    by (simp add: c)
  from t have "fst (root_handler (MongoClient ''mongodb://store/mydb'') \<lparr>req_method = ''GET'', req_path = ''/''\<rparr>
         ((snd (root_handler (MongoClient ''mongodb://store/mydb'') \<lparr>req_method = ''GET'', req_path = ''/''\<rparr>
                 (boot Map.empty False Map.empty)))\<lparr>reachable := True\<rparr>)) =
     fst (root_handler (MongoClient ''mongodb://store/mydb'') \<lparr>req_method = ''GET'', req_path = ''/''\<rparr>
        ((boot Map.empty False Map.empty)\<lparr>reachable := True\<rparr>))"
    by blast
  then have e: "fst (root_handler (MongoClient ''mongodb://store/mydb'') \<lparr>req_method = ''GET'', req_path = ''/''\<rparr>
         ((snd (root_handler (MongoClient ''mongodb://store/mydb'') \<lparr>req_method = ''GET'', req_path = ''/''\<rparr>
                 (boot Map.empty False Map.empty)))\<lparr>reachable := True\<rparr>)) =
     \<lparr>statusCode = 200, body = Some (Json (JArray []))\<rparr>"
    using b by (rule trans)
  show ?thesis using a d e by blast
qed

text \<open>
  C9. The read path writes nothing to the store: \<^verbatim>\<open>getProducts\<close> leaves the whole state
  as it is, one run of the handler leaves the collections as they are, and so does any
  sequence of requests.
\<close>

theorem read_path_frame:
  "snd (getProducts m w) = w \<and>
   collections (snd (root_handler m req w)) = collections w \<and>
   collections (foldl (\<lambda>v q. snd (root_handler m q v)) w reqs) = collections w"
proof -
  have "collections (foldl (\<lambda>v q. snd (root_handler m q v)) w reqs) = collections w"
  proof (induction reqs arbitrary: w)
    case Nil
    show ?case by simp
  next
    case (Cons q qs)
    show ?case by (simp add: Cons.IH root_handler_collections)
  qed
  then show ?thesis by (simp add: getProducts_frame root_handler_collections)
qed

section \<open>Startup: \<^verbatim>\<open>connectDB\<close> and \<^verbatim>\<open>start\<close>\<close>

text \<open>
  C5. Without \<^verbatim>\<open>DATABASE_URL\<close> in the environment, the process ends with the
  configuration error of \<^verbatim>\<open>connectDB\<close> as its fault and nothing else has happened: no
  session, no route, no listener.
\<close>

theorem start_without_url:
  assumes "env w ''DATABASE_URL'' = None"
  shows "main w = w\<lparr>fault := Some (ConfigError ''DATABASE_URL environment variable is not specified'')\<rparr> \<and>
    listening (main w) = listening w \<and> routes (main w) = routes w \<and> connected (main w) = connected w"
  using assms by (simp add: main_def start_def bind_io_def connectDB_def throw_io_def)

theorem start_without_url_witness:
  "env (boot Map.empty True Map.empty) ''DATABASE_URL'' = None \<and>
   fault (main (boot Map.empty True Map.empty)) =
     Some (ConfigError ''DATABASE_URL environment variable is not specified'') \<and>
   listening (main (boot Map.empty True Map.empty)) = None \<and>
   routes (main (boot Map.empty True Map.empty)) = []"
proof -
  have a: "env (boot Map.empty True Map.empty) ''DATABASE_URL'' = None" by (simp add: boot_def)
  show ?thesis using a start_without_url [OF a] by (simp add: boot_def)
qed




section \<open>The service without a store answers ok\<close>

text \<open>
  C8. The handler of \<^verbatim>\<open>GET /\<close> in \<^verbatim>\<open>src/src/index.ts\<close> answers every request with
  status 200 and the JSON object whose only member is \<^verbatim>\<open>message\<close> with the value
  \<^verbatim>\<open>ok\<close>. The handler takes the request and the response object only: it reads no
  environment variable and no store.
\<close>

theorem index_handler_ok:
  "index_handler req fresh_res =
     \<lparr>statusCode = 200, body = Some (Json (JObject [(''message'', JString ''ok'')]))\<rparr>"
  by (simp add: index_handler_def res_send_def fresh_res_def)

end
